theory Spec2Isabelle
  imports Complex_Main
begin

section \<open>Python values handled by the task processor\<close>

text \<open>
  A Python \<open>str\<close> is a sequence of Unicode code points and \<open>len\<close> counts code points, so a
  string is modelled as a list of code points. \<open>ustr\<close> embeds an ASCII literal of the source.
\<close>

type_synonym pystr = "nat list"

definition ustr :: "string \<Rightarrow> pystr" where
  "ustr s = map of_char s"

text \<open>The apostrophe that the messages put around field names.\<close>

definition quote :: pystr where
  "quote = [39]"

text \<open>
  A Python \<open>float\<close>. The program never computes with one: it only tests the runtime type
  and passes the object on, so the payload is kept abstractly as a real number or one of the
  three non-finite values that \<open>json.load\<close> also produces.
\<close>

datatype pyfloat = Finite real | PosInf | NegInf | NaN

text \<open>
  The values \<open>json.load\<close> returns. \<open>JInt\<close> holds the objects whose type is exactly \<open>int\<close>
  (a JSON number literal without fraction or exponent); \<open>JBool\<close> holds \<open>True\<close> and \<open>False\<close>,
  whose type \<open>bool\<close> is a subclass of \<open>int\<close>; \<open>JFloat\<close> holds every other JSON number.
  A decoded JSON object is a \<open>dict\<close> with string keys, modelled as an association list in
  insertion order that \<open>map_of\<close> reads.
\<close>

datatype json =
    JNull
  | JBool bool
  | JInt int
  | JFloat pyfloat
  | JStr pystr
  | JList "json list"
  | JDict "(pystr \<times> json) list"

text \<open>\<open>type(v).__name__\<close>\<close>

fun type_name :: "json \<Rightarrow> pystr" where
  "type_name JNull = ustr ''NoneType''"
| "type_name (JBool b) = ustr ''bool''"
| "type_name (JInt n) = ustr ''int''"
| "type_name (JFloat f) = ustr ''float''"
| "type_name (JStr s) = ustr ''str''"
| "type_name (JList xs) = ustr ''list''"
| "type_name (JDict d) = ustr ''dict''"

text \<open>\<open>isinstance(v, bool)\<close>, \<open>isinstance(v, int)\<close> (true of a \<open>bool\<close> as well) and so on.\<close>

fun isinstance_bool :: "json \<Rightarrow> bool" where
  "isinstance_bool (JBool b) = True"
| "isinstance_bool v = False"

fun isinstance_int :: "json \<Rightarrow> bool" where
  "isinstance_int (JInt n) = True"
| "isinstance_int (JBool b) = True"
| "isinstance_int v = False"

fun isinstance_float :: "json \<Rightarrow> bool" where
  "isinstance_float (JFloat f) = True"
| "isinstance_float v = False"

fun isinstance_str :: "json \<Rightarrow> bool" where
  "isinstance_str (JStr s) = True"
| "isinstance_str v = False"

subsection \<open>\<open>str.strip\<close> and \<open>str(int)\<close>\<close>

text \<open>
  The code points that \<open>str.strip()\<close> removes: the ASCII whitespace table of CPython
  (tab to carriage return, the four separators 28 to 31, space) and the Unicode whitespace
  characters beyond ASCII.
\<close>

definition isspace :: "nat \<Rightarrow> bool" where
  "isspace c \<longleftrightarrow>
     (9 \<le> c \<and> c \<le> 13) \<or> (28 \<le> c \<and> c \<le> 32) \<or> c = 133 \<or> c = 160 \<or> c = 5760
     \<or> (8192 \<le> c \<and> c \<le> 8202) \<or> c = 8232 \<or> c = 8233 \<or> c = 8239 \<or> c = 8287
     \<or> c = 12288"

definition strip :: "pystr \<Rightarrow> pystr" where
  "strip s = rev (dropWhile isspace (rev (dropWhile isspace s)))"

fun digits :: "nat \<Rightarrow> pystr" where
  "digits n = (if n < 10 then [48 + n] else digits (n div 10) @ [48 + n mod 10])"

declare digits.simps [simp del]

definition str_int :: "int \<Rightarrow> pystr" where
  "str_int i = (if i < 0 then 45 # digits (nat (- i)) else digits (nat i))"

section \<open>Exceptions, records and the log\<close>

text \<open>
  \<open>ValidationError\<close> is the exception class of the module. \<open>KeyError\<close> is what subscripting
  a \<open>dict\<close> raises on an absent key. \<open>OtherException\<close> stands for any other subclass of
  \<open>Exception\<close>, with its message.
\<close>

datatype exn = ValidationError pystr | KeyError pystr | OtherException pystr

text \<open>
  The dictionary \<open>validate_item\<close> returns has the three keys of its literal; \<open>id\<close> is typed
  by what the program does with it (set membership and formatting of an \<open>int\<close>), \<open>name\<close> by
  \<open>len\<close>, and \<open>value\<close> is the original object, which the program only passes on.
\<close>

record validated_item =
  item_id :: int
  item_name :: pystr
  item_value :: json

record processed_item =
  out_id :: int
  out_name :: pystr
  out_value :: json
  out_processed :: bool
  out_name_length :: int

datatype level = INFO | ERROR

type_synonym log = "(level \<times> pystr) list"

section \<open>\<open>validate_item\<close>\<close>

definition required_fields :: "pystr list" where
  "required_fields = [ustr ''id'', ustr ''name'', ustr ''value'']"

text \<open>The loop over \<open>required_fields\<close>: the first absent field raises.\<close>

fun check_required :: "(pystr \<times> json) list \<Rightarrow> int \<Rightarrow> pystr list \<Rightarrow> exn option" where
  "check_required item index [] = None"
| "check_required item index (field # rest) =
     (if map_of item field = None
      then Some (ValidationError (ustr ''Item at index '' @ str_int index
                   @ ustr '' is missing required field '' @ quote @ field @ quote))
      else check_required item index rest)"

text \<open>\<open>item[key]\<close>\<close>

definition getitem :: "(pystr \<times> json) list \<Rightarrow> pystr \<Rightarrow> exn + json" where
  "getitem item key = (case map_of item key of None \<Rightarrow> Inl (KeyError key) | Some v \<Rightarrow> Inr v)"

text \<open>
  The type checks of lines 64 to 91 on the three looked-up objects. The test
  \<open>isinstance(id, bool) or not isinstance(id, int)\<close> fails exactly on the objects that are
  not a \<open>JInt\<close>, and \<open>not isinstance(name, str)\<close> exactly on those that are not a \<open>JStr\<close>
  (lemmas \<open>id_test_iff\<close> and \<open>name_test_iff\<close> below), so both are written as a case
  distinction that also yields the integer and the string.
\<close>

definition validate_fields :: "int \<Rightarrow> json \<Rightarrow> json \<Rightarrow> json \<Rightarrow> exn + validated_item" where
  "validate_fields index idv namev valuev =
     (case idv of
        JInt n \<Rightarrow>
          (case namev of
             JStr s \<Rightarrow>
               if strip s = []
               then Inl (ValidationError (ustr ''Item at index '' @ str_int index
                      @ ustr '': '' @ quote @ ustr ''name'' @ quote
                      @ ustr '' must be a non-empty string''))
               else if \<not> (isinstance_int valuev \<or> isinstance_float valuev)
               then Inl (ValidationError (ustr ''Item at index '' @ str_int index
                      @ ustr '': '' @ quote @ ustr ''value'' @ quote
                      @ ustr '' must be numeric, got '' @ type_name valuev))
               else if isinstance_bool valuev
               then Inl (ValidationError (ustr ''Item at index '' @ str_int index
                      @ ustr '': '' @ quote @ ustr ''value'' @ quote
                      @ ustr '' must be numeric, got bool''))
               else Inr \<lparr>item_id = n, item_name = s, item_value = valuev\<rparr>
           | _ \<Rightarrow>
               Inl (ValidationError (ustr ''Item at index '' @ str_int index
                      @ ustr '': '' @ quote @ ustr ''name'' @ quote
                      @ ustr '' must be a string, got '' @ type_name namev)))
      | _ \<Rightarrow>
          Inl (ValidationError (ustr ''Item at index '' @ str_int index
                 @ ustr '': '' @ quote @ ustr ''id'' @ quote
                 @ ustr '' must be an integer, got '' @ type_name idv)))"

definition validate_item :: "json \<Rightarrow> int \<Rightarrow> exn + validated_item" where
  "validate_item item index =
     (case item of
        JDict d \<Rightarrow>
          (case check_required d index required_fields of
             Some e \<Rightarrow> Inl e
           | None \<Rightarrow>
               (case getitem d (ustr ''id'') of
                  Inl e \<Rightarrow> Inl e
                | Inr idv \<Rightarrow>
                    (case getitem d (ustr ''name'') of
                       Inl e \<Rightarrow> Inl e
                     | Inr namev \<Rightarrow>
                         (case getitem d (ustr ''value'') of
                            Inl e \<Rightarrow> Inl e
                          | Inr valuev \<Rightarrow> validate_fields index idv namev valuev))))
      | _ \<Rightarrow>
          Inl (ValidationError (ustr ''Item at index '' @ str_int index
                 @ ustr '' is not an object'')))"

section \<open>\<open>validate_input\<close>\<close>

text \<open>
  The \<open>for index, item in enumerate(data)\<close> loop, with its three variables \<open>index\<close>,
  \<open>seen_ids\<close> and \<open>validated_items\<close> as arguments.
\<close>

fun validate_loop ::
  "json list \<Rightarrow> int \<Rightarrow> int set \<Rightarrow> validated_item list \<Rightarrow> exn + validated_item list" where
  "validate_loop [] index seen_ids validated_items = Inr validated_items"
| "validate_loop (item # rest) index seen_ids validated_items =
     (case validate_item item index of
        Inl e \<Rightarrow> Inl e
      | Inr validated \<Rightarrow>
          if item_id validated \<in> seen_ids
          then Inl (ValidationError (ustr ''Duplicate id found: '' @ str_int (item_id validated)))
          else validate_loop rest (index + 1) (insert (item_id validated) seen_ids)
                 (validated_items @ [validated]))"

definition validate_input :: "json \<Rightarrow> exn + validated_item list" where
  "validate_input data =
     (case data of
        JList items \<Rightarrow> validate_loop items 0 {} []
      | _ \<Rightarrow> Inl (ValidationError (ustr ''Input must be a JSON array'')))"

section \<open>\<open>process_items\<close>\<close>

definition process_item :: "validated_item \<Rightarrow> processed_item" where
  "process_item item =
     \<lparr>out_id = item_id item, out_name = item_name item, out_value = item_value item,
      out_processed = True, out_name_length = int (length (item_name item))\<rparr>"

fun process_loop :: "validated_item list \<Rightarrow> processed_item list \<Rightarrow> processed_item list" where
  "process_loop [] processed = processed"
| "process_loop (item # rest) processed = process_loop rest (processed @ [process_item item])"

text \<open>The log is the only state the function touches: it appends one record to it.\<close>

definition process_items :: "validated_item list \<Rightarrow> log \<Rightarrow> processed_item list \<times> log" where
  "process_items items lg =
     (let processed = process_loop items []
      in (processed,
          lg @ [(INFO, ustr ''Successfully processed '' @ str_int (int (length processed))
                        @ ustr '' items'')]))"

section \<open>Reading, writing and \<open>process_command\<close>\<close>

text \<open>
  The file system and the JSON codec are outside the program. What \<open>open\<close> followed by
  \<open>json.load\<close> does at a path, and what \<open>open\<close> followed by \<open>json.dump\<close> does, are
  parameters: each either completes or raises one of the exceptions the handlers tell apart,
  \<open>ReadException\<close> and \<open>WriteException\<close> being any other subclass of \<open>Exception\<close> with
  its message.
\<close>

datatype read_outcome =
    ReadOk json
  | ReadFileNotFoundError
  | ReadJSONDecodeError pystr
  | ReadPermissionError
  | ReadException pystr

datatype write_outcome = WriteOk | WritePermissionError | WriteException pystr

definition read_input_file :: "(pystr \<Rightarrow> read_outcome) \<Rightarrow> pystr \<Rightarrow> log \<Rightarrow> (exn + json) \<times> log" where
  "read_input_file reader input_path lg =
     (case reader input_path of
        ReadOk data \<Rightarrow>
          (Inr data, lg @ [(INFO, ustr ''Successfully read input file: '' @ input_path)])
      | ReadFileNotFoundError \<Rightarrow>
          (Inl (ValidationError (ustr ''Input file not found: '' @ input_path)), lg)
      | ReadJSONDecodeError e \<Rightarrow>
          (Inl (ValidationError (ustr ''Invalid JSON in input file: '' @ e)), lg)
      | ReadPermissionError \<Rightarrow>
          (Inl (ValidationError (ustr ''Permission denied reading file: '' @ input_path)), lg)
      | ReadException e \<Rightarrow>
          (Inl (ValidationError (ustr ''Error reading input file: '' @ e)), lg))"

definition write_output_file ::
  "(pystr \<Rightarrow> processed_item list \<Rightarrow> write_outcome) \<Rightarrow> pystr \<Rightarrow> processed_item list \<Rightarrow> log
     \<Rightarrow> (exn + unit) \<times> log" where
  "write_output_file writer output_path data lg =
     (case writer output_path data of
        WriteOk \<Rightarrow>
          (Inr (), lg @ [(INFO, ustr ''Successfully wrote output file: '' @ output_path)])
      | WritePermissionError \<Rightarrow>
          (Inl (ValidationError (ustr ''Permission denied writing to file: '' @ output_path)), lg)
      | WriteException e \<Rightarrow>
          (Inl (ValidationError (ustr ''Error writing output file: '' @ e)), lg))"

text \<open>The body of the \<open>try\<close> statement: the first exception ends it.\<close>

definition process_command_try ::
  "(pystr \<Rightarrow> read_outcome) \<Rightarrow> (pystr \<Rightarrow> processed_item list \<Rightarrow> write_outcome)
     \<Rightarrow> pystr \<Rightarrow> pystr \<Rightarrow> log \<Rightarrow> (exn + int) \<times> log" where
  "process_command_try reader writer input_path output_path lg =
     (case read_input_file reader input_path lg of
        (Inl e, lg1) \<Rightarrow> (Inl e, lg1)
      | (Inr data, lg1) \<Rightarrow>
          (case validate_input data of
             Inl e \<Rightarrow> (Inl e, lg1)
           | Inr validated_items \<Rightarrow>
               (case process_items validated_items lg1 of
                  (processed_items, lg2) \<Rightarrow>
                    (case write_output_file writer output_path processed_items lg2 of
                       (Inl e, lg3) \<Rightarrow> (Inl e, lg3)
                     | (Inr u, lg3) \<Rightarrow> (Inr 0, lg3)))))"

text \<open>\<open>str(e)\<close>; for a \<open>KeyError\<close> it is the key between apostrophes.\<close>

fun exn_str :: "exn \<Rightarrow> pystr" where
  "exn_str (ValidationError m) = m"
| "exn_str (KeyError k) = quote @ k @ quote"
| "exn_str (OtherException m) = m"

text \<open>
  The two handlers, \<open>except ValidationError\<close> then \<open>except Exception\<close>, applied to the
  outcome of the \<open>try\<close> body: a returned code passes through, any exception is logged at
  error severity and becomes the code 1.
\<close>

definition process_command_except :: "(exn + int) \<times> log \<Rightarrow> int \<times> log" where
  "process_command_except outcome =
     (case outcome of
        (Inr code, lg) \<Rightarrow> (code, lg)
      | (Inl (ValidationError m), lg) \<Rightarrow>
          (1, lg @ [(ERROR, ustr ''Validation error: '' @ m)])
      | (Inl e, lg) \<Rightarrow>
          (1, lg @ [(ERROR, ustr ''Unexpected error: '' @ exn_str e)]))"

definition process_command ::
  "(pystr \<Rightarrow> read_outcome) \<Rightarrow> (pystr \<Rightarrow> processed_item list \<Rightarrow> write_outcome)
     \<Rightarrow> pystr \<Rightarrow> pystr \<Rightarrow> log \<Rightarrow> int \<times> log" where
  "process_command reader writer input_path output_path lg =
     process_command_except (process_command_try reader writer input_path output_path lg)"

section \<open>The six schema rules as the specification words them\<close>

text \<open>
  The rules of the Schema Validator in the order the specification lists them, rule 2 once
  for each required key. \<open>spec_satisfies\<close> says when a raw value meets a rule and
  \<open>spec_message\<close> is the message the specification gives for its violation.
\<close>

datatype spec_rule =
    Rule_object
  | Rule_has_id
  | Rule_has_name
  | Rule_has_value
  | Rule_id_integer
  | Rule_name_string
  | Rule_name_nonempty
  | Rule_value_numeric

definition spec_rules_in_order :: "spec_rule list" where
  "spec_rules_in_order =
     [Rule_object, Rule_has_id, Rule_has_name, Rule_has_value, Rule_id_integer,
      Rule_name_string, Rule_name_nonempty, Rule_value_numeric]"

fun spec_field :: "json \<Rightarrow> pystr \<Rightarrow> json option" where
  "spec_field (JDict d) key = map_of d key"
| "spec_field v key = None"

fun spec_satisfies :: "spec_rule \<Rightarrow> json \<Rightarrow> bool" where
  "spec_satisfies Rule_object item = (case item of JDict d \<Rightarrow> True | _ \<Rightarrow> False)"
| "spec_satisfies Rule_has_id item = (spec_field item (ustr ''id'') \<noteq> None)"
| "spec_satisfies Rule_has_name item = (spec_field item (ustr ''name'') \<noteq> None)"
| "spec_satisfies Rule_has_value item = (spec_field item (ustr ''value'') \<noteq> None)"
| "spec_satisfies Rule_id_integer item =
     (case spec_field item (ustr ''id'') of Some (JInt n) \<Rightarrow> True | _ \<Rightarrow> False)"
| "spec_satisfies Rule_name_string item =
     (case spec_field item (ustr ''name'') of Some (JStr s) \<Rightarrow> True | _ \<Rightarrow> False)"
| "spec_satisfies Rule_name_nonempty item =
     (case spec_field item (ustr ''name'') of Some (JStr s) \<Rightarrow> strip s \<noteq> [] | _ \<Rightarrow> False)"
| "spec_satisfies Rule_value_numeric item =
     (case spec_field item (ustr ''value'') of
        Some (JInt n) \<Rightarrow> True | Some (JFloat f) \<Rightarrow> True | _ \<Rightarrow> False)"

definition spec_type_of :: "json \<Rightarrow> pystr \<Rightarrow> pystr" where
  "spec_type_of item key = (case spec_field item key of Some v \<Rightarrow> type_name v | None \<Rightarrow> [])"

definition spec_at :: "int \<Rightarrow> pystr" where
  "spec_at index = ustr ''Item at index '' @ str_int index"

fun spec_message :: "spec_rule \<Rightarrow> json \<Rightarrow> int \<Rightarrow> pystr" where
  "spec_message Rule_object item index = spec_at index @ ustr '' is not an object''"
| "spec_message Rule_has_id item index =
     spec_at index @ ustr '' is missing required field '' @ quote @ ustr ''id'' @ quote"
| "spec_message Rule_has_name item index =
     spec_at index @ ustr '' is missing required field '' @ quote @ ustr ''name'' @ quote"
| "spec_message Rule_has_value item index =
     spec_at index @ ustr '' is missing required field '' @ quote @ ustr ''value'' @ quote"
| "spec_message Rule_id_integer item index =
     spec_at index @ ustr '': '' @ quote @ ustr ''id'' @ quote
       @ ustr '' must be an integer, got '' @ spec_type_of item (ustr ''id'')"
| "spec_message Rule_name_string item index =
     spec_at index @ ustr '': '' @ quote @ ustr ''name'' @ quote
       @ ustr '' must be a string, got '' @ spec_type_of item (ustr ''name'')"
| "spec_message Rule_name_nonempty item index =
     spec_at index @ ustr '': '' @ quote @ ustr ''name'' @ quote
       @ ustr '' must be a non-empty string''"
| "spec_message Rule_value_numeric item index =
     spec_at index @ ustr '': '' @ quote @ ustr ''value'' @ quote
       @ ustr '' must be numeric, got '' @ spec_type_of item (ustr ''value'')"


section \<open>Auxiliary facts\<close>

lemma id_test_iff: "(isinstance_bool v \<or> \<not> isinstance_int v) \<longleftrightarrow> (\<forall>n. v \<noteq> JInt n)"
  by (cases v) auto

lemma name_test_iff: "\<not> isinstance_str v \<longleftrightarrow> (\<forall>s. v \<noteq> JStr s)"
  by (cases v) auto

lemma value_test_iff:
  "(isinstance_int v \<or> isinstance_float v) \<and> \<not> isinstance_bool v
     \<longleftrightarrow> (\<exists>n. v = JInt n) \<or> (\<exists>f. v = JFloat f)"
  by (cases v) auto

lemma keys_distinct:
  "ustr ''id'' \<noteq> ustr ''name''" "ustr ''id'' \<noteq> ustr ''value''" "ustr ''name'' \<noteq> ustr ''value''"
  by (simp_all add: ustr_def)

lemma check_required_all:
  "check_required d index required_fields = None \<longleftrightarrow>
     map_of d (ustr ''id'') \<noteq> None \<and> map_of d (ustr ''name'') \<noteq> None
     \<and> map_of d (ustr ''value'') \<noteq> None"
  by (simp add: required_fields_def)

lemma validate_fields_Inr_iff:
  "validate_fields index idv namev valuev = Inr r \<longleftrightarrow>
     (\<exists>n s. idv = JInt n \<and> namev = JStr s \<and> strip s \<noteq> []
        \<and> ((\<exists>k. valuev = JInt k) \<or> (\<exists>f. valuev = JFloat f))
        \<and> r = \<lparr>item_id = n, item_name = s, item_value = valuev\<rparr>)"
  unfolding value_test_iff [symmetric]
  by (auto simp: validate_fields_def split: json.splits)

lemma validate_item_Inr_iff:
  "validate_item item index = Inr r \<longleftrightarrow>
     (\<exists>d n s v. item = JDict d \<and> map_of d (ustr ''id'') = Some (JInt n)
        \<and> map_of d (ustr ''name'') = Some (JStr s) \<and> strip s \<noteq> []
        \<and> map_of d (ustr ''value'') = Some v
        \<and> ((\<exists>k. v = JInt k) \<or> (\<exists>f. v = JFloat f))
        \<and> r = \<lparr>item_id = n, item_name = s, item_value = v\<rparr>)"
proof (cases item)
  case (JDict d)
  show ?thesis
    unfolding JDict validate_item_def
    by (auto simp: required_fields_def getitem_def validate_fields_Inr_iff split: option.splits)
qed (simp_all add: validate_item_def)

lemma validate_item_Inl:
  "\<exists>e. validate_item item index = Inl e \<Longrightarrow> \<exists>m. validate_item item index = Inl (ValidationError m)"
  by (cases item)
     (auto simp: validate_item_def getitem_def required_fields_def validate_fields_def
           split: option.splits json.splits if_splits)

lemma first_violation:
  "find (\<lambda>q. \<not> spec_satisfies q item) spec_rules_in_order = Some r \<Longrightarrow>
   validate_item item index = Inl (ValidationError (spec_message r item index))"
proof (cases item)
  case (JDict d)
  assume "find (\<lambda>q. \<not> spec_satisfies q item) spec_rules_in_order = Some r"
  then show ?thesis
    unfolding JDict validate_item_def spec_rules_in_order_def
    by (auto simp: required_fields_def getitem_def validate_fields_def spec_at_def spec_type_of_def
         split: option.splits json.splits if_splits) (simp add: ustr_def)
qed (auto simp add: validate_item_def spec_rules_in_order_def spec_at_def)

text \<open>The rules are all there is to validation: a value is accepted exactly when it meets
  every rule.\<close>

lemma accepted_iff_all_rules:
  "(\<exists>r. validate_item item index = Inr r) \<longleftrightarrow>
   (\<forall>q\<in>set spec_rules_in_order. spec_satisfies q item)"
proof (cases item)
  case (JDict d)
  show ?thesis
    unfolding JDict validate_item_Inr_iff spec_rules_in_order_def
    by (auto split: option.splits json.splits)
qed (simp_all add: validate_item_def spec_rules_in_order_def)

lemma validate_loop_prefix:
  "length vs = length pre \<Longrightarrow>
   \<forall>k<length pre. validate_item (pre ! k) (index + int k) = Inr (vs ! k) \<Longrightarrow>
   distinct (map item_id vs) \<Longrightarrow>
   item_id ` set vs \<inter> seen = {} \<Longrightarrow>
   validate_loop (pre @ rest) index seen acc =
     validate_loop rest (index + int (length pre)) (seen \<union> item_id ` set vs) (acc @ vs)"
proof (induction pre arbitrary: vs index seen acc)
  case Nil
  then show ?case by simp
next
  case (Cons x xs)
  then obtain v vs' where vs: "vs = v # vs'" and len: "length vs' = length xs"
    by (cases vs) auto
  from Cons.prems(2) have head: "validate_item x index = Inr v"
    by (auto simp: vs dest: spec [where x = 0])
  have tail: "\<forall>k<length xs. validate_item (xs ! k) (index + 1 + int k) = Inr (vs' ! k)"
  proof (intro allI impI)
    fix k assume "k < length xs"
    with Cons.prems(2) have "validate_item ((x # xs) ! Suc k) (index + int (Suc k)) = Inr (vs ! Suc k)"
      by auto
    then show "validate_item (xs ! k) (index + 1 + int k) = Inr (vs' ! k)"
      by (simp add: vs add.commute add.left_commute)
  qed
  from Cons.prems(3) have dist: "distinct (map item_id vs')" and fresh: "item_id v \<notin> item_id ` set vs'"
    by (auto simp: vs)
  from Cons.prems(4) have unseen: "item_id v \<notin> seen" and disj: "item_id ` set vs' \<inter> insert (item_id v) seen = {}"
    using fresh by (auto simp: vs)
  have step: "validate_loop ((x # xs) @ rest) index seen acc =
        validate_loop (xs @ rest) (index + 1) (insert (item_id v) seen) (acc @ [v])"
    using head unseen by simp
  have ih: "validate_loop (xs @ rest) (index + 1) (insert (item_id v) seen) (acc @ [v]) =
        validate_loop rest (index + 1 + int (length xs)) (insert (item_id v) seen \<union> item_id ` set vs')
          ((acc @ [v]) @ vs')"
    by (rule Cons.IH [OF len tail dist disj])
  have idx: "index + 1 + int (length xs) = index + int (length (x # xs))"
    by simp
  have ids: "insert (item_id v) seen \<union> item_id ` set vs' = seen \<union> item_id ` set vs"
    unfolding vs by auto
  have acc: "(acc @ [v]) @ vs' = acc @ vs"
    unfolding vs by simp
  show ?case
    unfolding step ih idx ids acc ..
qed

lemma validate_loop_Inr:
  "validate_loop items index seen acc = Inr rs \<Longrightarrow>
   \<exists>vs. rs = acc @ vs \<and> length vs = length items
     \<and> (\<forall>k<length items. validate_item (items ! k) (index + int k) = Inr (vs ! k))
     \<and> distinct (map item_id vs) \<and> item_id ` set vs \<inter> seen = {}"
proof (induction items arbitrary: index seen acc)
  case Nil
  then show ?case by simp
next
  case (Cons x xs)
  from Cons.prems obtain v where head: "validate_item x index = Inr v"
    and unseen: "item_id v \<notin> seen"
    and rest: "validate_loop xs (index + 1) (insert (item_id v) seen) (acc @ [v]) = Inr rs"
    by (auto split: sum.splits if_splits)
  from Cons.IH [OF rest] obtain vs' where rs: "rs = (acc @ [v]) @ vs'"
    and len: "length vs' = length xs"
    and each: "\<forall>k<length xs. validate_item (xs ! k) (index + 1 + int k) = Inr (vs' ! k)"
    and dist: "distinct (map item_id vs')"
    and disj: "item_id ` set vs' \<inter> insert (item_id v) seen = {}"
    by blast
  have all: "\<forall>k<length (x # xs). validate_item ((x # xs) ! k) (index + int k) = Inr ((v # vs') ! k)"
  proof (intro allI impI)
    fix k assume k: "k < length (x # xs)"
    show "validate_item ((x # xs) ! k) (index + int k) = Inr ((v # vs') ! k)"
    proof (cases k)
      case 0
      then show ?thesis using head by simp
    next
      case (Suc k')
      with k each have "validate_item (xs ! k') (index + 1 + int k') = Inr (vs' ! k')" by simp
      then show ?thesis by (simp add: Suc add.commute add.left_commute)
    qed
  qed
  have "distinct (map item_id (v # vs'))" using dist disj by auto
  moreover have "item_id ` set (v # vs') \<inter> seen = {}" using unseen disj by auto
  ultimately show ?case using rs len all
    by (intro exI [where x = "v # vs'"]) simp
qed

lemma process_loop_map: "process_loop items processed = processed @ map process_item items"
  by (induction items arbitrary: processed) simp_all

lemma fst_process_items: "fst (process_items items lg) = map process_item items"
  by (simp add: process_items_def process_loop_map Let_def)

section \<open>The schema rules are checked in their order\<close>

text \<open>
  Claim C1. Whatever the raw value and the position, \<open>validate_item\<close> checks the rules in the
  order object shape, presence of \<open>id\<close>, \<open>name\<close>, \<open>value\<close>, integer \<open>id\<close>, string
  \<open>name\<close>, non-empty \<open>name\<close>, numeric \<open>value\<close>: when a rule is violated and every rule
  before it in that order is met, the call raises \<open>ValidationError\<close> with the message of
  that rule, whichever later rules are violated as well.
\<close>

theorem validate_item_reports_first_violated_rule:
  assumes "spec_rules_in_order = earlier @ r # later"
    and "\<forall>q\<in>set earlier. spec_satisfies q item"
    and "\<not> spec_satisfies r item"
  shows "validate_item item index = Inl (ValidationError (spec_message r item index))"
proof -
  have "find (\<lambda>q. \<not> spec_satisfies q item) earlier = None"
    using assms(2) by (simp add: find_None_iff)
  then have "find (\<lambda>q. \<not> spec_satisfies q item) spec_rules_in_order = Some r"
    using assms(3) unfolding assms(1) by (induction earlier) auto
  then show ?thesis by (rule first_violation)
qed

theorem validate_item_reports_first_violated_rule_witness:
  "spec_satisfies Rule_object (JDict [(ustr ''name'', JInt 3), (ustr ''value'', JBool True)])
   \<and> \<not> spec_satisfies Rule_has_id (JDict [(ustr ''name'', JInt 3), (ustr ''value'', JBool True)])
   \<and> \<not> spec_satisfies Rule_name_string (JDict [(ustr ''name'', JInt 3), (ustr ''value'', JBool True)])
   \<and> \<not> spec_satisfies Rule_value_numeric (JDict [(ustr ''name'', JInt 3), (ustr ''value'', JBool True)])
   \<and> validate_item (JDict [(ustr ''name'', JInt 3), (ustr ''value'', JBool True)]) 7 =
       Inl (ValidationError (ustr ''Item at index 7 is missing required field '' @ quote @ ustr ''id'' @ quote))"
  using validate_item_reports_first_violated_rule
    [of "[Rule_object]" Rule_has_id
        "[Rule_has_name, Rule_has_value, Rule_id_integer, Rule_name_string, Rule_name_nonempty,
          Rule_value_numeric]"
        "JDict [(ustr ''name'', JInt 3), (ustr ''value'', JBool True)]" 7]
  by (simp add: spec_rules_in_order_def spec_at_def str_int_def digits.simps ustr_def)

section \<open>Booleans are neither integers nor numbers\<close>

text \<open>
  Claim C2. A record whose \<open>id\<close> is a boolean fails validation, and so does a record whose
  \<open>value\<close> is a boolean. When the three fields are present the boolean \<open>id\<close> is reported
  as \<open>bool\<close> by the integer rule, and when the rules before the numeric rule are met the
  boolean \<open>value\<close> is reported by the message \<open>'value' must be numeric, got bool\<close>.
\<close>

theorem validate_item_rejects_booleans:
  "(map_of d (ustr ''id'') = Some (JBool b) \<longrightarrow>
      (\<exists>m. validate_item (JDict d) index = Inl (ValidationError m)))
   \<and> (map_of d (ustr ''value'') = Some (JBool b) \<longrightarrow>
      (\<exists>m. validate_item (JDict d) index = Inl (ValidationError m)))
   \<and> (map_of d (ustr ''id'') = Some (JBool b) \<and> map_of d (ustr ''name'') \<noteq> None
        \<and> map_of d (ustr ''value'') \<noteq> None \<longrightarrow>
      validate_item (JDict d) index =
        Inl (ValidationError (ustr ''Item at index '' @ str_int index @ ustr '': '' @ quote
               @ ustr ''id'' @ quote @ ustr '' must be an integer, got bool'')))
   \<and> (map_of d (ustr ''id'') = Some (JInt n) \<and> map_of d (ustr ''name'') = Some (JStr s)
        \<and> strip s \<noteq> [] \<and> map_of d (ustr ''value'') = Some (JBool b) \<longrightarrow>
      validate_item (JDict d) index =
        Inl (ValidationError (ustr ''Item at index '' @ str_int index @ ustr '': '' @ quote
               @ ustr ''value'' @ quote @ ustr '' must be numeric, got bool'')))"
proof (intro conjI impI)
  assume "map_of d (ustr ''id'') = Some (JBool b)"
  then have "\<forall>r. validate_item (JDict d) index \<noteq> Inr r"
    by (simp add: validate_item_Inr_iff)
  then have "\<exists>e. validate_item (JDict d) index = Inl e"
    by (cases "validate_item (JDict d) index") auto
  then show "\<exists>m. validate_item (JDict d) index = Inl (ValidationError m)"
    by (rule validate_item_Inl)
next
  assume "map_of d (ustr ''value'') = Some (JBool b)"
  then have "\<forall>r. validate_item (JDict d) index \<noteq> Inr r"
    by (simp add: validate_item_Inr_iff)
  then have "\<exists>e. validate_item (JDict d) index = Inl e"
    by (cases "validate_item (JDict d) index") auto
  then show "\<exists>m. validate_item (JDict d) index = Inl (ValidationError m)"
    by (rule validate_item_Inl)
next
  assume "map_of d (ustr ''id'') = Some (JBool b) \<and> map_of d (ustr ''name'') \<noteq> None
        \<and> map_of d (ustr ''value'') \<noteq> None"
  then show "validate_item (JDict d) index =
        Inl (ValidationError (ustr ''Item at index '' @ str_int index @ ustr '': '' @ quote
               @ ustr ''id'' @ quote @ ustr '' must be an integer, got bool''))"
    by (auto simp: validate_item_def required_fields_def getitem_def validate_fields_def ustr_def)
next
  assume "map_of d (ustr ''id'') = Some (JInt n) \<and> map_of d (ustr ''name'') = Some (JStr s)
        \<and> strip s \<noteq> [] \<and> map_of d (ustr ''value'') = Some (JBool b)"
  then show "validate_item (JDict d) index =
        Inl (ValidationError (ustr ''Item at index '' @ str_int index @ ustr '': '' @ quote
               @ ustr ''value'' @ quote @ ustr '' must be numeric, got bool''))"
    by (auto simp: validate_item_def required_fields_def getitem_def validate_fields_def)
qed

theorem validate_item_rejects_booleans_witness:
  "validate_item (JDict [(ustr ''id'', JBool True), (ustr ''name'', JStr (ustr ''Test'')),
                         (ustr ''value'', JInt 100)]) 0 =
     Inl (ValidationError (ustr ''Item at index 0: '' @ quote @ ustr ''id'' @ quote
            @ ustr '' must be an integer, got bool''))
   \<and> validate_item (JDict [(ustr ''id'', JInt 1), (ustr ''name'', JStr (ustr ''Test'')),
                           (ustr ''value'', JBool False)]) 0 =
     Inl (ValidationError (ustr ''Item at index 0: '' @ quote @ ustr ''value'' @ quote
            @ ustr '' must be numeric, got bool''))"
  using validate_item_rejects_booleans
      [where d = "[(ustr ''id'', JBool True), (ustr ''name'', JStr (ustr ''Test'')),
                   (ustr ''value'', JInt 100)]" and b = True and index = 0]
    validate_item_rejects_booleans
      [where d = "[(ustr ''id'', JInt 1), (ustr ''name'', JStr (ustr ''Test'')),
                   (ustr ''value'', JBool False)]" and b = False and index = 0 and n = 1
         and s = "ustr ''Test''"]
  by (simp add: ustr_def strip_def isspace_def str_int_def digits.simps)

section \<open>The first duplicate identifier\<close>

text \<open>
  Claim C3. Let the first \<open>j\<close> elements pass the schema rules with pairwise distinct
  identifiers. If element \<open>j\<close> passes them too and carries an identifier already seen,
  \<open>validate_input\<close> fails with \<open>Duplicate id found: <id>\<close> for that element, whatever
  follows it; if element \<open>j\<close> fails the schema rules, the failure is its schema error, so
  the duplicate check comes after the schema check of the same element.
\<close>

theorem validate_input_first_duplicate:
  assumes "length vs = j" and "j < length items"
    and "\<forall>k<j. validate_item (items ! k) (int k) = Inr (vs ! k)"
    and "distinct (map item_id vs)"
  shows "(validate_item (items ! j) (int j) = Inl e \<longrightarrow> validate_input (JList items) = Inl e)
    \<and> (validate_item (items ! j) (int j) = Inr v \<and> item_id v \<in> item_id ` set vs \<longrightarrow>
         validate_input (JList items) =
           Inl (ValidationError (ustr ''Duplicate id found: '' @ str_int (item_id v))))"
proof -
  have split: "items = take j items @ items ! j # drop (Suc j) items"
    using assms(2) by (rule id_take_nth_drop)
  have len: "length vs = length (take j items)"
    using assms(1,2) by simp
  have each: "\<forall>k<length (take j items). validate_item (take j items ! k) (0 + int k) = Inr (vs ! k)"
    using assms(2,3) by simp
  have "validate_loop (take j items @ items ! j # drop (Suc j) items) 0 {} [] =
        validate_loop (items ! j # drop (Suc j) items) (0 + int (length (take j items)))
          ({} \<union> item_id ` set vs) ([] @ vs)"
    by (rule validate_loop_prefix [OF len each assms(4)]) simp
  then have loop: "validate_input (JList items) =
        validate_loop (items ! j # drop (Suc j) items) (int j) (item_id ` set vs) vs"
    using split assms(2) by (simp add: validate_input_def min_absorb2)
  show ?thesis
    unfolding loop by simp
qed

theorem validate_input_first_duplicate_witness:
  "validate_input (JList
     [JDict [(ustr ''id'', JInt 1), (ustr ''name'', JStr (ustr ''A'')), (ustr ''value'', JInt 1)],
      JDict [(ustr ''id'', JInt 2), (ustr ''name'', JStr (ustr ''B'')), (ustr ''value'', JInt 2)],
      JDict [(ustr ''id'', JInt 1), (ustr ''name'', JStr (ustr ''C'')), (ustr ''value'', JInt 3)],
      JDict [(ustr ''id'', JInt 2), (ustr ''name'', JStr (ustr ''D'')), (ustr ''value'', JInt 4)]]) =
     Inl (ValidationError (ustr ''Duplicate id found: 1''))
   \<and> validate_input (JList
     [JDict [(ustr ''id'', JInt 1), (ustr ''name'', JStr (ustr ''A'')), (ustr ''value'', JInt 1)],
      JDict [(ustr ''id'', JInt 1), (ustr ''name'', JStr []), (ustr ''value'', JInt 2)]]) =
     Inl (ValidationError (ustr ''Item at index 1: '' @ quote @ ustr ''name'' @ quote
            @ ustr '' must be a non-empty string''))"
  using validate_input_first_duplicate
      [where vs = "[\<lparr>item_id = 1, item_name = ustr ''A'', item_value = JInt 1\<rparr>,
                    \<lparr>item_id = 2, item_name = ustr ''B'', item_value = JInt 2\<rparr>]"
         and j = 2
         and items = "[JDict [(ustr ''id'', JInt 1), (ustr ''name'', JStr (ustr ''A'')), (ustr ''value'', JInt 1)],
      JDict [(ustr ''id'', JInt 2), (ustr ''name'', JStr (ustr ''B'')), (ustr ''value'', JInt 2)],
      JDict [(ustr ''id'', JInt 1), (ustr ''name'', JStr (ustr ''C'')), (ustr ''value'', JInt 3)],
      JDict [(ustr ''id'', JInt 2), (ustr ''name'', JStr (ustr ''D'')), (ustr ''value'', JInt 4)]]"
         and v = "\<lparr>item_id = 1, item_name = ustr ''C'', item_value = JInt 3\<rparr>"]
    validate_input_first_duplicate
      [where vs = "[\<lparr>item_id = 1, item_name = ustr ''A'', item_value = JInt 1\<rparr>]"
         and j = 1
         and items = "[JDict [(ustr ''id'', JInt 1), (ustr ''name'', JStr (ustr ''A'')), (ustr ''value'', JInt 1)],
      JDict [(ustr ''id'', JInt 1), (ustr ''name'', JStr []), (ustr ''value'', JInt 2)]]"
         and e = "ValidationError (ustr ''Item at index 1: '' @ quote @ ustr ''name'' @ quote
            @ ustr '' must be a non-empty string'')"]
  by (simp add: less_2_cases_iff validate_item_def required_fields_def getitem_def
        validate_fields_def ustr_def strip_def isspace_def str_int_def digits.simps quote_def)

section \<open>The enricher\<close>

text \<open>
  Claim C4. For every list of validated records \<open>process_items\<close> returns (its type has no
  failure, and no step of it can raise on a validated record) one output record per input
  record, in the same order: the record's \<open>id\<close>, \<open>name\<close> and \<open>value\<close>, \<open>processed\<close>
  true and \<open>name_length\<close> the number of characters of the name. The empty list gives the
  empty list.
\<close>

theorem process_items_total_in_order:
  "fst (process_items items lg) =
     map (\<lambda>item. \<lparr>out_id = item_id item, out_name = item_name item, out_value = item_value item,
                   out_processed = True, out_name_length = int (length (item_name item))\<rparr>) items
   \<and> length (fst (process_items items lg)) = length items
   \<and> fst (process_items [] lg) = []"
  by (simp add: fst_process_items process_item_def)

section \<open>The orchestrator's status\<close>

text \<open>
  Claim C5. For every pair of paths, whatever the reader and the writer do, the status of
  \<open>process_command\<close> is 0 when reading, validating, enriching and writing all complete and
  1 otherwise, so it is one of these two values; and the handlers turn every exception that
  leaves the \<open>try\<close> body, a \<open>ValidationError\<close> or any other, into the status 1.
\<close>

theorem process_command_status:
  "fst (process_command reader writer input_path output_path lg) =
     (if \<exists>data validated_items.
           reader input_path = ReadOk data \<and> validate_input data = Inr validated_items
           \<and> writer output_path
                 (fst (process_items validated_items (snd (read_input_file reader input_path lg))))
               = WriteOk
      then 0 else 1)
   \<and> fst (process_command_except (Inl e, lg)) = 1"
  by (auto simp: process_command_def process_command_try_def process_command_except_def
        read_input_file_def write_output_file_def fst_process_items process_items_def Let_def
      split: read_outcome.splits write_outcome.splits sum.splits exn.splits prod.splits)

section \<open>Validated fields are the original objects\<close>

text \<open>
  Claim C6. When a record passes validation, the stored \<open>id\<close>, \<open>name\<close> and \<open>value\<close> are
  the objects found under these keys in the raw record, the name untrimmed, and the output
  record made from it has \<open>name_length\<close> equal to the number of characters of that
  untrimmed name.
\<close>

theorem validated_fields_are_original:
  assumes "validate_item item index = Inr r"
  shows "(\<exists>d. item = JDict d
            \<and> map_of d (ustr ''id'') = Some (JInt (item_id r))
            \<and> map_of d (ustr ''name'') = Some (JStr (item_name r))
            \<and> map_of d (ustr ''value'') = Some (item_value r))
       \<and> fst (process_items [r] lg) =
           [\<lparr>out_id = item_id r, out_name = item_name r, out_value = item_value r,
             out_processed = True, out_name_length = int (length (item_name r))\<rparr>]"
  using assms by (auto simp: validate_item_Inr_iff fst_process_items process_item_def)

theorem validated_fields_are_original_witness:
  "validate_item (JDict [(ustr ''id'', JInt 4), (ustr ''name'', JStr (ustr ''  ab '')),
                         (ustr ''value'', JFloat (Finite 2.5))]) 0 =
     Inr \<lparr>item_id = 4, item_name = ustr ''  ab '', item_value = JFloat (Finite 2.5)\<rparr>
   \<and> fst (process_items
            [\<lparr>item_id = 4, item_name = ustr ''  ab '', item_value = JFloat (Finite 2.5)\<rparr>] []) =
       [\<lparr>out_id = 4, out_name = ustr ''  ab '', out_value = JFloat (Finite 2.5),
         out_processed = True, out_name_length = 5\<rparr>]"
proof -
  have ok: "validate_item (JDict [(ustr ''id'', JInt 4), (ustr ''name'', JStr (ustr ''  ab '')),
                         (ustr ''value'', JFloat (Finite 2.5))]) 0 =
     Inr \<lparr>item_id = 4, item_name = ustr ''  ab '', item_value = JFloat (Finite 2.5)\<rparr>"
    by (simp add: validate_item_def required_fields_def getitem_def validate_fields_def
          ustr_def strip_def isspace_def)
  show ?thesis
    using ok validated_fields_are_original [OF ok, of "[]"] by (simp add: ustr_def)
qed

section \<open>Identifiers that decode as floating point\<close>

text \<open>
  Claim C7 says that a record whose \<open>id\<close> is a JSON number without fractional part, such
  as \<open>5.0\<close>, is accepted. \<open>json.load\<close> decodes \<open>5.0\<close> as the \<open>float\<close> 5.0, and
  \<open>validate_item\<close> rejects it; it also rejects a name that is a string but empty.
\<close>

theorem float_id_rejected:
  "frac (5 :: real) = 0
   \<and> validate_item (JDict [(ustr ''id'', JFloat (Finite 5)), (ustr ''name'', JStr (ustr ''a'')),
                           (ustr ''value'', JInt 1)]) 0 =
       Inl (ValidationError (ustr ''Item at index 0: '' @ quote @ ustr ''id'' @ quote
              @ ustr '' must be an integer, got float''))
   \<and> validate_item (JDict [(ustr ''id'', JInt 5), (ustr ''name'', JStr []),
                           (ustr ''value'', JInt 1)]) 0 =
       Inl (ValidationError (ustr ''Item at index 0: '' @ quote @ ustr ''name'' @ quote
              @ ustr '' must be a non-empty string''))"
  by (simp add: validate_item_def required_fields_def getitem_def validate_fields_def
        ustr_def strip_def str_int_def digits.simps)

text \<open>
  Claim C7 as amended. A record is accepted when its \<open>id\<close> decodes as an \<open>int\<close> (a JSON
  integer literal, not a boolean), its \<open>name\<close> is a string that is not empty after
  trimming and its \<open>value\<close> is an \<open>int\<close> or a \<open>float\<close>; a record with all three keys
  whose \<open>id\<close> decodes as a \<open>float\<close> is rejected by the integer rule, with or without a
  fractional part.
\<close>

theorem integer_id_accepted_float_id_rejected:
  "(map_of d (ustr ''id'') = Some (JInt n) \<and> map_of d (ustr ''name'') = Some (JStr s)
      \<and> strip s \<noteq> [] \<and> map_of d (ustr ''value'') = Some v
      \<and> (v = JInt k \<or> v = JFloat f) \<longrightarrow>
    validate_item (JDict d) index = Inr \<lparr>item_id = n, item_name = s, item_value = v\<rparr>)
   \<and> (map_of d (ustr ''id'') = Some (JFloat x) \<and> map_of d (ustr ''name'') \<noteq> None
      \<and> map_of d (ustr ''value'') \<noteq> None \<longrightarrow>
    validate_item (JDict d) index =
      Inl (ValidationError (ustr ''Item at index '' @ str_int index @ ustr '': '' @ quote
             @ ustr ''id'' @ quote @ ustr '' must be an integer, got float'')))"
proof (intro conjI impI)
  assume "map_of d (ustr ''id'') = Some (JInt n) \<and> map_of d (ustr ''name'') = Some (JStr s)
      \<and> strip s \<noteq> [] \<and> map_of d (ustr ''value'') = Some v \<and> (v = JInt k \<or> v = JFloat f)"
  then show "validate_item (JDict d) index = Inr \<lparr>item_id = n, item_name = s, item_value = v\<rparr>"
    by (auto simp: validate_item_Inr_iff)
next
  assume "map_of d (ustr ''id'') = Some (JFloat x) \<and> map_of d (ustr ''name'') \<noteq> None
      \<and> map_of d (ustr ''value'') \<noteq> None"
  then show "validate_item (JDict d) index =
      Inl (ValidationError (ustr ''Item at index '' @ str_int index @ ustr '': '' @ quote
             @ ustr ''id'' @ quote @ ustr '' must be an integer, got float''))"
    by (auto simp: validate_item_def required_fields_def getitem_def validate_fields_def ustr_def)
qed

theorem integer_id_accepted_float_id_rejected_witness:
  "validate_item (JDict [(ustr ''id'', JInt 5), (ustr ''name'', JStr (ustr ''a'')),
                         (ustr ''value'', JFloat (Finite 1.5))]) 3 =
     Inr \<lparr>item_id = 5, item_name = ustr ''a'', item_value = JFloat (Finite 1.5)\<rparr>
   \<and> validate_item (JDict [(ustr ''id'', JFloat (Finite 5)), (ustr ''name'', JStr (ustr ''a'')),
                           (ustr ''value'', JInt 1)]) 3 =
       Inl (ValidationError (ustr ''Item at index 3: '' @ quote @ ustr ''id'' @ quote
              @ ustr '' must be an integer, got float''))"
  using integer_id_accepted_float_id_rejected
      [where d = "[(ustr ''id'', JInt 5), (ustr ''name'', JStr (ustr ''a'')),
                   (ustr ''value'', JFloat (Finite 1.5))]"
         and n = 5 and s = "ustr ''a''" and v = "JFloat (Finite 1.5)" and f = "Finite 1.5"
         and index = 3]
    integer_id_accepted_float_id_rejected
      [where d = "[(ustr ''id'', JFloat (Finite 5)), (ustr ''name'', JStr (ustr ''a'')),
                   (ustr ''value'', JInt 1)]"
         and x = "Finite 5" and index = 3]
  by (simp add: ustr_def strip_def isspace_def str_int_def digits.simps)

section \<open>Enriching twice\<close>

text \<open>
  Claim C8. The only state \<open>process_items\<close> touches is the log, and its result does not
  read it: the output for a list of validated records is the same from any two states, in
  particular from the state a first application leaves behind.
\<close>

theorem process_items_repeatable:
  "fst (process_items items lg) = fst (process_items items lg')
   \<and> fst (process_items items (snd (process_items items lg))) = fst (process_items items lg)"
  by (simp add: fst_process_items)

section \<open>Distinct identifiers, input order\<close>

text \<open>
  Claim C9. When \<open>validate_input\<close> succeeds, the input is an array, the returned records
  are in input order (the record at each position is the validated form of the element at
  that position, validated at that position), and their identifiers are pairwise distinct.
\<close>

theorem validate_input_distinct_in_order:
  assumes "validate_input data = Inr rs"
  shows "distinct (map item_id rs)
       \<and> (\<exists>items. data = JList items \<and> length rs = length items
            \<and> (\<forall>k<length items. validate_item (items ! k) (int k) = Inr (rs ! k)))"
proof -
  from assms obtain items where data: "data = JList items"
    and loop: "validate_loop items 0 {} [] = Inr rs"
    by (cases data) (simp_all add: validate_input_def)
  from validate_loop_Inr [OF loop] obtain vs where "rs = [] @ vs" "length vs = length items"
    "\<forall>k<length items. validate_item (items ! k) (0 + int k) = Inr (vs ! k)"
    "distinct (map item_id vs)"
    by blast
  then show ?thesis using data by simp
qed

theorem validate_input_distinct_in_order_witness:
  "validate_input (JList
     [JDict [(ustr ''id'', JInt 2), (ustr ''name'', JStr (ustr ''Beta'')), (ustr ''value'', JInt 20)],
      JDict [(ustr ''id'', JInt 1), (ustr ''name'', JStr (ustr ''Alpha'')), (ustr ''value'', JInt 10)]]) =
     Inr [\<lparr>item_id = 2, item_name = ustr ''Beta'', item_value = JInt 20\<rparr>,
          \<lparr>item_id = 1, item_name = ustr ''Alpha'', item_value = JInt 10\<rparr>]
   \<and> distinct (map item_id
       [\<lparr>item_id = 2, item_name = ustr ''Beta'', item_value = JInt 20\<rparr>,
        \<lparr>item_id = 1, item_name = ustr ''Alpha'', item_value = JInt 10\<rparr>])"
proof -
  have ok: "validate_input (JList
     [JDict [(ustr ''id'', JInt 2), (ustr ''name'', JStr (ustr ''Beta'')), (ustr ''value'', JInt 20)],
      JDict [(ustr ''id'', JInt 1), (ustr ''name'', JStr (ustr ''Alpha'')), (ustr ''value'', JInt 10)]]) =
     Inr [\<lparr>item_id = 2, item_name = ustr ''Beta'', item_value = JInt 20\<rparr>,
          \<lparr>item_id = 1, item_name = ustr ''Alpha'', item_value = JInt 10\<rparr>]"
    by (simp add: validate_input_def validate_item_def required_fields_def getitem_def
          validate_fields_def ustr_def strip_def isspace_def)
  from validate_input_distinct_in_order [OF ok] have
    "distinct (map item_id
       [\<lparr>item_id = 2, item_name = ustr ''Beta'', item_value = JInt 20\<rparr>,
        \<lparr>item_id = 1, item_name = ustr ''Alpha'', item_value = JInt 10\<rparr>])"
    by (rule conjunct1)
  with ok show ?thesis by (rule conjI)
qed

section \<open>Extra keys\<close>

text \<open>
  Claim C10. A mapping with a valid \<open>id\<close>, \<open>name\<close> and \<open>value\<close> is accepted whatever other
  keys it has. The validated record holds the three fields and nothing else: it is the
  record obtained from the mapping with these three keys only, so no extra key reaches the
  output of \<open>process_items\<close>.
\<close>

theorem validate_item_ignores_extra_keys:
  assumes "map_of d (ustr ''id'') = Some (JInt n)"
    and "map_of d (ustr ''name'') = Some (JStr s)" and "strip s \<noteq> []"
    and "map_of d (ustr ''value'') = Some v"
    and "(isinstance_int v \<or> isinstance_float v) \<and> \<not> isinstance_bool v"
  shows "validate_item (JDict d) index = Inr \<lparr>item_id = n, item_name = s, item_value = v\<rparr>
       \<and> validate_item (JDict d) index =
           validate_item (JDict [(ustr ''id'', JInt n), (ustr ''name'', JStr s),
                                 (ustr ''value'', v)]) index
       \<and> fst (process_items [\<lparr>item_id = n, item_name = s, item_value = v\<rparr>] lg) =
           [\<lparr>out_id = n, out_name = s, out_value = v, out_processed = True,
             out_name_length = int (length s)\<rparr>]"
proof -
  from assms(5) have num: "(\<exists>k. v = JInt k) \<or> (\<exists>f. v = JFloat f)"
    by (simp add: value_test_iff)
  have full: "validate_item (JDict d) index = Inr \<lparr>item_id = n, item_name = s, item_value = v\<rparr>"
    using assms(1-4) num by (simp add: validate_item_Inr_iff)
  have three: "validate_item (JDict [(ustr ''id'', JInt n), (ustr ''name'', JStr s),
                 (ustr ''value'', v)]) index
      = Inr \<lparr>item_id = n, item_name = s, item_value = v\<rparr>"
    using assms(3) num keys_distinct by (simp add: validate_item_Inr_iff)
  show ?thesis
    using full three by (simp add: fst_process_items process_item_def)
qed

theorem validate_item_ignores_extra_keys_witness:
  "validate_item (JDict [(ustr ''note'', JStr (ustr ''x'')), (ustr ''value'', JInt 7),
                         (ustr ''id'', JInt 3), (ustr ''tags'', JList [JNull]),
                         (ustr ''name'', JStr (ustr ''Gamma''))]) 0 =
     Inr \<lparr>item_id = 3, item_name = ustr ''Gamma'', item_value = JInt 7\<rparr>"
  using validate_item_ignores_extra_keys
      [where d = "[(ustr ''note'', JStr (ustr ''x'')), (ustr ''value'', JInt 7),
                   (ustr ''id'', JInt 3), (ustr ''tags'', JList [JNull]),
                   (ustr ''name'', JStr (ustr ''Gamma''))]"
         and n = 3 and s = "ustr ''Gamma''" and v = "JInt 7" and index = 0]
  by (simp add: ustr_def strip_def isspace_def)


section \<open>The scenarios of the specification\<close>

text \<open>
  Scenario A: two valid records are enriched and written, and the status is 0. The writer
  here accepts exactly the expected output.
\<close>

lemma scenario_A:
  "process_command
     (\<lambda>path. ReadOk (JList
        [JDict [(ustr ''id'', JInt 1), (ustr ''name'', JStr (ustr ''Alpha'')), (ustr ''value'', JInt 10)],
         JDict [(ustr ''id'', JInt 2), (ustr ''name'', JStr (ustr ''Beta'')), (ustr ''value'', JInt 20)]]))
     (\<lambda>path data.
        if data =
          [\<lparr>out_id = 1, out_name = ustr ''Alpha'', out_value = JInt 10, out_processed = True,
            out_name_length = 5\<rparr>,
           \<lparr>out_id = 2, out_name = ustr ''Beta'', out_value = JInt 20, out_processed = True,
            out_name_length = 4\<rparr>]
        then WriteOk else WriteException [])
     (ustr ''in.json'') (ustr ''out.json'') [] =
   (0, [(INFO, ustr ''Successfully read input file: in.json''),
        (INFO, ustr ''Successfully processed 2 items''),
        (INFO, ustr ''Successfully wrote output file: out.json'')])"
  by (simp add: process_command_def process_command_try_def process_command_except_def
        read_input_file_def write_output_file_def process_items_def process_item_def
        validate_input_def validate_item_def required_fields_def getitem_def validate_fields_def
        ustr_def strip_def isspace_def str_int_def digits.simps)

text \<open>Scenario B: an empty name gives the status 1 and the message of the non-empty rule.\<close>

lemma scenario_B:
  "process_command
     (\<lambda>path. ReadOk (JList
        [JDict [(ustr ''id'', JInt 1), (ustr ''name'', JStr []), (ustr ''value'', JInt 10)]]))
     writer (ustr ''in.json'') (ustr ''out.json'') [] =
   (1, [(INFO, ustr ''Successfully read input file: in.json''),
        (ERROR, ustr ''Validation error: Item at index 0: '' @ quote @ ustr ''name'' @ quote
                  @ ustr '' must be a non-empty string'')])"
  by (simp add: process_command_def process_command_try_def process_command_except_def
        read_input_file_def validate_input_def validate_item_def required_fields_def getitem_def
        validate_fields_def ustr_def strip_def str_int_def digits.simps)

text \<open>Scenario C: a repeated identifier gives the status 1 and names the identifier.\<close>

lemma scenario_C:
  "process_command
     (\<lambda>path. ReadOk (JList
        [JDict [(ustr ''id'', JInt 1), (ustr ''name'', JStr (ustr ''A'')), (ustr ''value'', JInt 1)],
         JDict [(ustr ''id'', JInt 1), (ustr ''name'', JStr (ustr ''B'')), (ustr ''value'', JInt 2)]]))
     writer (ustr ''in.json'') (ustr ''out.json'') [] =
   (1, [(INFO, ustr ''Successfully read input file: in.json''),
        (ERROR, ustr ''Validation error: Duplicate id found: 1'')])"
  by (simp add: process_command_def process_command_try_def process_command_except_def
        read_input_file_def validate_input_def validate_item_def required_fields_def getitem_def
        validate_fields_def ustr_def strip_def isspace_def str_int_def digits.simps)

text \<open>
  Scenario D: a malformed document gives the status 1 whatever the writer would do, so the
  writer is not asked to write.
\<close>

lemma scenario_D:
  "process_command (\<lambda>path. ReadJSONDecodeError e) writer input_path output_path [] =
   (1, [(ERROR, ustr ''Validation error: Invalid JSON in input file: '' @ e)])"
  by (simp add: process_command_def process_command_try_def process_command_except_def
        read_input_file_def ustr_def)

text \<open>Scenario E: the empty array is written as the empty array, with the status 0.\<close>

lemma scenario_E:
  "process_command (\<lambda>path. ReadOk (JList []))
     (\<lambda>path data. if data = [] then WriteOk else WriteException [])
     (ustr ''in.json'') (ustr ''out.json'') [] =
   (0, [(INFO, ustr ''Successfully read input file: in.json''),
        (INFO, ustr ''Successfully processed 0 items''),
        (INFO, ustr ''Successfully wrote output file: out.json'')])"
  by (simp add: process_command_def process_command_try_def process_command_except_def
        read_input_file_def write_output_file_def process_items_def
        validate_input_def ustr_def str_int_def digits.simps)

end
